theory Spec2Isabelle
  imports Main
begin

section \<open>Values of the host language\<close>

text \<open>
  A Python \<open>str\<close> is a sequence of Unicode code points. A literal of the source is
  written \<open>py ''...''\<close>.
\<close>

type_synonym pystr = "nat list"

definition py :: "string \<Rightarrow> pystr" where
  "py s = map of_char s"

text \<open>
  What \<open>request.data.get(key)\<close> can give: \<open>None\<close> (key absent, or JSON null), a
  boolean, a string, or any other parsed value (a number, an array, an object). Of such
  a value the views use only its truth value and its \<open>str()\<close>, which \<open>POther\<close> carries.
\<close>

datatype pyval = PNone | PBool bool | PStr pystr | POther bool pystr

fun truthy :: "pyval \<Rightarrow> bool" where
  "truthy PNone = False"
| "truthy (PBool b) = b"
| "truthy (PStr s) = (s \<noteq> [])"
| "truthy (POther b s) = b"

fun py_str :: "pyval \<Rightarrow> pystr" where
  "py_str PNone = py ''None''"
| "py_str (PBool b) = (if b then py ''True'' else py ''False'')"
| "py_str (PStr s) = s"
| "py_str (POther b s) = s"

text \<open>
  \<open>str.isspace\<close> of one code point (the whitespace table of CPython), and
  \<open>str.strip()\<close> without arguments, which removes such code points at both ends.
\<close>

definition isspace :: "nat \<Rightarrow> bool" where
  "isspace c \<longleftrightarrow>
     (9 \<le> c \<and> c \<le> 13) \<or> (28 \<le> c \<and> c \<le> 32) \<or> c = 133 \<or> c = 160 \<or> c = 5760 \<or>
     (8192 \<le> c \<and> c \<le> 8202) \<or> c = 8232 \<or> c = 8233 \<or> c = 8239 \<or> c = 8287 \<or> c = 12288"

definition strip :: "pystr \<Rightarrow> pystr" where
  "strip s = rev (dropWhile isspace (rev (dropWhile isspace s)))"

section \<open>Dates and times\<close>

text \<open>
  A \<open>datetime.date\<close> is its proleptic Gregorian ordinal (\<open>toordinal()\<close>), and
  \<open>weekday()\<close> is \<open>(toordinal() + 6) % 7\<close>, Monday being 0. A \<open>datetime.time\<close> is
  the number of microseconds since midnight, and a \<open>timedelta\<close> a number of
  microseconds; \<open>hm h m\<close> is the time \<open>h:m\<close>. \<open>datetime.combine(target_date, t)\<close> is
  represented by the offset \<open>t\<close> from midnight of \<open>target_date\<close>: the only datetimes
  the slot loop turns back into times with \<open>.time()\<close> are at most \<open>avail_end_dt\<close>, a
  datetime of that same day, so \<open>.time()\<close> gives the offset back.

  The last datetime is 9999-12-31 23:59:59.999999, the last microsecond of the date of
  ordinal 3652059; \<open>datetime_max target_date\<close> is its offset from midnight of
  \<open>target_date\<close>. Adding a \<open>timedelta\<close> to a datetime raises \<open>OverflowError\<close> when the
  sum is after the last datetime.
\<close>

type_synonym date = nat
type_synonym time = nat

definition weekday :: "date \<Rightarrow> nat" where
  "weekday d = (d + 6) mod 7"

definition timedelta_minutes :: "nat \<Rightarrow> nat" where
  "timedelta_minutes m = m * 60000000"

definition hm :: "nat \<Rightarrow> nat \<Rightarrow> time" where
  "hm h m = timedelta_minutes (h * 60 + m)"

definition day_length :: nat where
  "day_length = timedelta_minutes (24 * 60)"

definition date_max :: date where
  "date_max = 3652059"

definition datetime_max :: "date \<Rightarrow> nat" where
  "datetime_max target_date = (date_max - target_date) * day_length + (day_length - 1)"

datatype py_exception = OverflowError

definition SLOT_MINUTES :: nat where
  "SLOT_MINUTES = 45"

definition slot_length :: nat where
  "slot_length = timedelta_minutes SLOT_MINUTES"

section \<open>The stored records\<close>

text \<open>
  Modelled from the spec: the models \<open>Kinesiologist\<close>, \<open>Availability\<close> and
  \<open>Appointment\<close> are declared in \<open>models.py\<close>, which is not among the files at hand.
  The records have the fields of the spec's data model, under the names the views read
  and write them by. A table is the list of its rows, in the order the database returns
  them. A user is identified by its primary key.
\<close>

record kinesiologist =
  k_id :: nat
  k_user :: nat

record availability =
  av_kinesiologist_id :: nat
  av_day :: nat
  av_start_time :: time
  av_end_time :: time

record appointment =
  ap_id :: nat
  ap_kinesiologist_id :: nat
  ap_patient_id :: nat
  ap_date :: date
  ap_start_time :: time
  ap_end_time :: time
  ap_status :: pystr
  ap_kine_comment :: "pystr option"
  ap_comment_updated_at :: "nat option"

record store =
  kinesiologists :: "kinesiologist list"
  availabilities :: "availability list"
  appointments :: "appointment list"

datatype http_status =
    HTTP_200_OK
  | HTTP_201_CREATED
  | HTTP_400_BAD_REQUEST
  | HTTP_403_FORBIDDEN
  | HTTP_404_NOT_FOUND
  | HTTP_500_INTERNAL_SERVER_ERROR

section \<open>KinesiologistAvailableSlotsView.get\<close>

text \<open>
  Querysets are lazy: building one reads nothing. The reads the view performs are
  \<open>availability_qs.exists()\<close>, the iteration over \<open>availability_qs\<close>, and one
  \<open>existing_appointments.filter(...).exists()\<close> per candidate slot. The view is modelled
  with the list of the reads it has made, in order, beside its response.
\<close>

datatype db_read =
    Availability_exists nat nat
  | Availability_rows nat nat
  | Appointment_overlap_exists nat date time time

record slot =
  sl_date :: date
  sl_start_time :: time
  sl_end_time :: time
  sl_datetime :: "date \<times> time"

text \<open>
  The body of a response: the detail message of a 400, the serialized slots of a 200, or
  the exception that nothing in the view catches, which the framework answers with 500.
\<close>

datatype slots_body = Detail | Slot_list "slot list" | Unhandled py_exception

definition availability_filter :: "store \<Rightarrow> nat \<Rightarrow> nat \<Rightarrow> availability list" where
  "availability_filter st kinesiologist_id day_of_week =
     filter (\<lambda>a. av_kinesiologist_id a = kinesiologist_id \<and> av_day a = day_of_week)
       (availabilities st)"

definition appointment_filter :: "store \<Rightarrow> nat \<Rightarrow> date \<Rightarrow> appointment list" where
  "appointment_filter st kinesiologist_id target_date =
     filter (\<lambda>a. ap_kinesiologist_id a = kinesiologist_id \<and> ap_date a = target_date)
       (appointments st)"

text \<open>\<open>qs.filter(start_time__lt=lt, end_time__gt=gt).exists()\<close>\<close>

definition overlap_exists :: "appointment list \<Rightarrow> time \<Rightarrow> time \<Rightarrow> bool" where
  "overlap_exists qs lt gt =
     (filter (\<lambda>a. ap_start_time a < lt \<and> ap_end_time a > gt) qs \<noteq> [])"

definition make_slot :: "date \<Rightarrow> time \<Rightarrow> time \<Rightarrow> slot" where
  "make_slot target_date current_start current_end =
     \<lparr>sl_date = target_date, sl_start_time = current_start, sl_end_time = current_end,
      sl_datetime = (target_date, current_start)\<rparr>"

text \<open>
  The \<open>while\<close> loop over one availability window. Its test computes
  \<open>current_start + slot_length\<close>, a datetime plus a timedelta, which raises
  \<open>OverflowError\<close> when the sum is after the last datetime; the loop then ends with the
  exception (\<open>Inl\<close>) and the reads made so far. The same sum computed again in the body,
  for \<open>current_end\<close> and for the next \<open>current_start\<close>, has passed the test and is in
  range.
\<close>

function tile ::
  "appointment list \<Rightarrow> nat \<Rightarrow> date \<Rightarrow> time \<Rightarrow> time \<Rightarrow> slot list \<times> db_read list
     \<Rightarrow> (py_exception + slot list) \<times> db_read list" where
  "tile existing_appointments kid target_date current_start avail_end (slots, reads) =
     (if datetime_max target_date < current_start + slot_length
      then (Inl OverflowError, reads)
      else if current_start + slot_length \<le> avail_end then
        let current_end = current_start + slot_length;
            overlap = overlap_exists existing_appointments current_end current_start;
            reads' = reads @ [Appointment_overlap_exists kid target_date current_end current_start];
            slots' = (if \<not> overlap
                      then slots @ [make_slot target_date current_start current_end]
                      else slots)
        in tile existing_appointments kid target_date (current_start + slot_length) avail_end
             (slots', reads')
      else (Inr slots, reads))"
  by pat_completeness auto
termination
  by (relation "measure (\<lambda>(ex, kid, d, cur, e, acc). e - cur)")
     (auto simp: slot_length_def timedelta_minutes_def SLOT_MINUTES_def)

text \<open>
  The \<open>for avail in availability_qs\<close> loop; an exception raised in a window ends it.
\<close>

fun for_avail ::
  "appointment list \<Rightarrow> nat \<Rightarrow> date \<Rightarrow> availability list \<Rightarrow> slot list \<times> db_read list
     \<Rightarrow> (py_exception + slot list) \<times> db_read list" where
  "for_avail existing_appointments kid target_date [] (slots, reads) = (Inr slots, reads)"
| "for_avail existing_appointments kid target_date (avail # rest) (slots, reads) =
     (case tile existing_appointments kid target_date (av_start_time avail)
             (av_end_time avail) (slots, reads) of
        (Inl e, reads') \<Rightarrow> (Inl e, reads')
      | (Inr slots', reads') \<Rightarrow>
          for_avail existing_appointments kid target_date rest (slots', reads'))"

text \<open>
  The view. \<open>strptime\<close> stands for \<open>datetime.strptime(_, "%Y-%m-%d").date()\<close>, with
  \<open>None\<close> for its \<open>ValueError\<close>; \<open>date_str\<close> is \<open>request.query_params.get("date")\<close>.
\<close>

definition slots_get ::
  "(pystr \<Rightarrow> date option) \<Rightarrow> store \<Rightarrow> nat \<Rightarrow> pystr option
     \<Rightarrow> (http_status \<times> slots_body) \<times> db_read list" where
  "slots_get strptime st kinesiologist_id date_str =
     (case date_str of
        None \<Rightarrow> ((HTTP_400_BAD_REQUEST, Detail), [])
      | Some s \<Rightarrow>
          if s = [] then ((HTTP_400_BAD_REQUEST, Detail), [])
          else
            (case strptime s of
               None \<Rightarrow> ((HTTP_400_BAD_REQUEST, Detail), [])
             | Some target_date \<Rightarrow>
                 let day_of_week = weekday target_date;
                     availability_qs = availability_filter st kinesiologist_id day_of_week
                 in
                   if availability_qs = []
                   then ((HTTP_200_OK, Slot_list []),
                         [Availability_exists kinesiologist_id day_of_week])
                   else
                     let existing_appointments =
                           appointment_filter st kinesiologist_id target_date
                     in
                       (case for_avail existing_appointments kinesiologist_id target_date
                               availability_qs
                               ([], [Availability_exists kinesiologist_id day_of_week,
                                     Availability_rows kinesiologist_id day_of_week]) of
                          (Inl e, reads) \<Rightarrow>
                            ((HTTP_500_INTERNAL_SERVER_ERROR, Unhandled e), reads)
                        | (Inr slots, reads) \<Rightarrow> ((HTTP_200_OK, Slot_list slots), reads))))"

text \<open>
  The tiling as the specification words it, to compare the loop with: the slots of length
  \<open>slot_length\<close> that start at the window's start time and at every multiple of
  \<open>slot_length\<close> after it, as many as fit before the window's end time.
\<close>

definition spec_tiling :: "date \<Rightarrow> time \<Rightarrow> time \<Rightarrow> slot list" where
  "spec_tiling target_date start_time end_time =
     map (\<lambda>k. make_slot target_date (start_time + k * slot_length)
                 (start_time + k * slot_length + slot_length))
       [0..<(end_time - start_time) div slot_length]"

text \<open>
  The largest sum \<open>current_start + slot_length\<close> that the loop computes for a window is
  the one that ends it, one slot length past the end of the last slot of the tiling. The
  window is within the range of datetimes on the queried date when that sum is.
\<close>

definition within_datetime_range :: "date \<Rightarrow> time \<Rightarrow> time \<Rightarrow> bool" where
  "within_datetime_range target_date start_time end_time \<longleftrightarrow>
     start_time + length (spec_tiling target_date start_time end_time) * slot_length
       + slot_length \<le> datetime_max target_date"

text \<open>The test a candidate slot passes to be appended: \<open>not overlap\<close>.\<close>

definition survives :: "appointment list \<Rightarrow> slot \<Rightarrow> bool" where
  "survives qs s = (\<not> overlap_exists qs (sl_end_time s) (sl_start_time s))"

text \<open>The read that tests a candidate slot.\<close>

definition overlap_read :: "nat \<Rightarrow> slot \<Rightarrow> db_read" where
  "overlap_read kid c =
     Appointment_overlap_exists kid (sl_date c) (sl_end_time c) (sl_start_time c)"

section \<open>AppointmentStatusView.patch and AppointmentCommentView.patch\<close>

text \<open>
  \<open>request.user\<close>. Both views require an authenticated caller (\<open>IsAuthenticated\<close>), so
  the methods run with a user; two users are equal when their primary keys are.
\<close>

record user =
  u_id :: nat
  is_superuser :: bool

text \<open>
  \<open>get_object_or_404(Appointment.objects.select_related("kinesiologist__user"), id=...)\<close>:
  the appointment with that primary key, joined with its kinesiologist; \<open>None\<close> is the
  404 response.
\<close>

definition get_object_or_404 :: "store \<Rightarrow> nat \<Rightarrow> (appointment \<times> kinesiologist) option" where
  "get_object_or_404 st appointment_id =
     (case find (\<lambda>a. ap_id a = appointment_id) (appointments st) of
        None \<Rightarrow> None
      | Some a \<Rightarrow>
          (case find (\<lambda>k. k_id k = ap_kinesiologist_id a) (kinesiologists st) of
             None \<Rightarrow> None
           | Some k \<Rightarrow> Some (a, k)))"

text \<open>
  \<open>appointment.save(update_fields=[...])\<close>: one \<open>UPDATE\<close> statement that writes the
  named fields of the object in memory to the row with its primary key, and nothing else.
\<close>

datatype field = F_status | F_kine_comment | F_comment_updated_at

fun copy_field :: "appointment \<Rightarrow> field \<Rightarrow> appointment \<Rightarrow> appointment" where
  "copy_field obj F_status row = row\<lparr>ap_status := ap_status obj\<rparr>"
| "copy_field obj F_kine_comment row = row\<lparr>ap_kine_comment := ap_kine_comment obj\<rparr>"
| "copy_field obj F_comment_updated_at row =
     row\<lparr>ap_comment_updated_at := ap_comment_updated_at obj\<rparr>"

definition save_update_fields :: "store \<Rightarrow> appointment \<Rightarrow> field list \<Rightarrow> store" where
  "save_update_fields st obj update_fields =
     st\<lparr>appointments :=
          map (\<lambda>row. if ap_id row = ap_id obj
                      then foldr (copy_field obj) update_fields row
                      else row)
            (appointments st)\<rparr>"

text \<open>
  The two views give a status code and the store after the call; the message texts are
  not modelled. \<open>new_status\<close> is \<open>request.data.get("status")\<close>.
\<close>

definition status_patch :: "store \<Rightarrow> user \<Rightarrow> nat \<Rightarrow> pyval \<Rightarrow> http_status \<times> store" where
  "status_patch st request_user appointment_id new_status =
     (case get_object_or_404 st appointment_id of
        None \<Rightarrow> (HTTP_404_NOT_FOUND, st)
      | Some (appointment, k) \<Rightarrow>
          if u_id request_user \<noteq> k_user k then (HTTP_403_FORBIDDEN, st)
          else
            (case new_status of
               PStr s \<Rightarrow>
                 if s \<notin> set [py ''confirmed'', py ''cancelled'']
                 then (HTTP_400_BAD_REQUEST, st)
                 else (HTTP_200_OK,
                       save_update_fields st (appointment\<lparr>ap_status := s\<rparr>) [F_status])
             | _ \<Rightarrow> (HTTP_400_BAD_REQUEST, st)))"

text \<open>
  \<open>comment\<close> is \<open>request.data.get("kine_comment")\<close> and \<open>now\<close> the reading of
  \<open>timezone.now()\<close>.
\<close>

definition comment_patch ::
  "store \<Rightarrow> user \<Rightarrow> nat \<Rightarrow> nat \<Rightarrow> pyval \<Rightarrow> http_status \<times> store" where
  "comment_patch st request_user now appointment_id comment =
     (case get_object_or_404 st appointment_id of
        None \<Rightarrow> (HTTP_404_NOT_FOUND, st)
      | Some (appointment, k) \<Rightarrow>
          if u_id request_user \<noteq> k_user k then (HTTP_403_FORBIDDEN, st)
          else if \<not> truthy comment \<or> strip (py_str comment) = []
          then (HTTP_400_BAD_REQUEST, st)
          else (HTTP_200_OK,
                save_update_fields st
                  (appointment\<lparr>ap_kine_comment := Some (strip (py_str comment)),
                               ap_status := py ''completed'',
                               ap_comment_updated_at := Some now\<rparr>)
                  [F_kine_comment, F_status, F_comment_updated_at]))"

section \<open>AppointmentCreateView.post\<close>

text \<open>
  \<open>AppointmentSerializer\<close> is declared in \<open>serializers.py\<close>, which is not among the
  files at hand, so the view takes it as a parameter: \<open>is_valid\<close> gives the validated
  data or \<open>None\<close> (the 400 response of \<open>raise_exception=True\<close>), \<open>patient_name\<close> is
  \<open>validated_data['patient_name']\<close>, and \<open>save\<close> gives the store with the new
  appointment, or the exception it raised, in which case \<open>transaction.atomic()\<close> rolls
  the store back.
\<close>

record patient =
  p_id :: nat
  p_user :: nat

datatype save_error = ValidationError | IntegrityError

record ('d, 'v) appointment_serializer =
  is_valid :: "store \<Rightarrow> kinesiologist \<Rightarrow> 'd \<Rightarrow> 'v option"
  patient_name :: "'v \<Rightarrow> patient"
  save :: "store \<Rightarrow> 'v \<Rightarrow> save_error + store"

definition create_post ::
  "('d, 'v) appointment_serializer \<Rightarrow> store \<Rightarrow> user \<Rightarrow> nat \<Rightarrow> 'd \<Rightarrow> http_status \<times> store" where
  "create_post serializer st request_user kinesiologist_id request_data =
     (case find (\<lambda>k. k_id k = kinesiologist_id) (kinesiologists st) of
        None \<Rightarrow> (HTTP_404_NOT_FOUND, st)
      | Some kinesiologist \<Rightarrow>
          (case is_valid serializer st kinesiologist request_data of
             None \<Rightarrow> (HTTP_400_BAD_REQUEST, st)
           | Some validated_data \<Rightarrow>
               let patient = patient_name serializer validated_data;
                   is_authorized =
                     (is_superuser request_user \<or> u_id request_user = p_user patient \<or>
                      u_id request_user = k_user kinesiologist)
               in
                 if \<not> is_authorized then (HTTP_403_FORBIDDEN, st)
                 else
                   (case save serializer st validated_data of
                      Inl ValidationError \<Rightarrow> (HTTP_400_BAD_REQUEST, st)
                    | Inl IntegrityError \<Rightarrow> (HTTP_500_INTERNAL_SERVER_ERROR, st)
                    | Inr st' \<Rightarrow> (HTTP_201_CREATED, st'))))"

section \<open>Concrete data\<close>

text \<open>
  Monday 2024-01-01 has ordinal 738886. Kinesiologist 3, whose user is 10, is available
  on Mondays from 09:00 to 10:30.
\<close>

definition example_strptime :: "pystr \<Rightarrow> date option" where
  "example_strptime s =
     (if s = py ''2024-01-01'' then Some 738886
      else if s = py ''2024-01-02'' then Some 738887
      else None)"

definition monday_window :: availability where
  "monday_window =
     \<lparr>av_kinesiologist_id = 3, av_day = 0, av_start_time = hm 9 0, av_end_time = hm 10 30\<rparr>"

definition example_store :: store where
  "example_store =
     \<lparr>kinesiologists = [\<lparr>k_id = 3, k_user = 10\<rparr>],
      availabilities = [monday_window],
      appointments = []\<rparr>"

text \<open>
  An appointment of that kinesiologist on that Monday from 09:45 to 10:30, Confirmed or
  Cancelled; the callers; and a serializer that accepts every request, names the patient
  whose user is 20, and saves a new appointment.
\<close>

definition confirmed_appointment :: appointment where
  "confirmed_appointment =
     \<lparr>ap_id = 7, ap_kinesiologist_id = 3, ap_patient_id = 2, ap_date = 738886,
      ap_start_time = hm 9 45, ap_end_time = hm 10 30, ap_status = py ''confirmed'',
      ap_kine_comment = None, ap_comment_updated_at = None\<rparr>"

definition cancelled_appointment :: appointment where
  "cancelled_appointment = confirmed_appointment\<lparr>ap_status := py ''cancelled''\<rparr>"

definition booked_store :: store where
  "booked_store = example_store\<lparr>appointments := [confirmed_appointment]\<rparr>"

definition cancelled_store :: store where
  "cancelled_store = example_store\<lparr>appointments := [cancelled_appointment]\<rparr>"

definition provider :: user where
  "provider = \<lparr>u_id = 10, is_superuser = False\<rparr>"

definition stranger :: user where
  "stranger = \<lparr>u_id = 11, is_superuser = False\<rparr>"

definition example_serializer :: "(nat, nat) appointment_serializer" where
  "example_serializer =
     \<lparr>is_valid = (\<lambda>st k patient_id. Some patient_id),
      patient_name = (\<lambda>patient_id. \<lparr>p_id = patient_id, p_user = 20\<rparr>),
      save = (\<lambda>st patient_id.
        Inr (st\<lparr>appointments := appointments st @
               [confirmed_appointment\<lparr>ap_id := 8, ap_patient_id := patient_id,
                  ap_status := py ''requested''\<rparr>]\<rparr>))\<rparr>"




section \<open>The slot loop computes the tiling\<close>

lemma slot_length_pos: "0 < slot_length"
  by (simp add: slot_length_def timedelta_minutes_def SLOT_MINUTES_def)

lemma spec_tiling_stop: "\<not> cur + slot_length \<le> e \<Longrightarrow> spec_tiling d cur e = []"
  using slot_length_pos by (simp add: spec_tiling_def div_eq_0_iff)

lemma spec_tiling_step:
  assumes "cur + slot_length \<le> e"
  shows "spec_tiling d cur e =
           make_slot d cur (cur + slot_length) # spec_tiling d (cur + slot_length) e"
proof -
  have "e - cur = (e - (cur + slot_length)) + slot_length"
    using assms by simp
  then have "(e - cur) div slot_length = Suc ((e - (cur + slot_length)) div slot_length)"
    using slot_length_pos by (metis Suc_eq_plus1 div_add_self2 less_numeral_extra(3))
  then show ?thesis
    by (simp add: spec_tiling_def map_upt_Suc add.assoc add.commute add.left_commute
        del: upt_Suc)
qed



lemma spec_tiling_date: "c \<in> set (spec_tiling d a b) \<Longrightarrow> sl_date c = d"
  by (auto simp: spec_tiling_def make_slot_def)

text \<open>
  A window is within range exactly when every sum the loop computes for it is: the loop
  then returns the tiling, and otherwise raises.
\<close>

declare tile.simps [simp del]

lemma within_range_first:
  "within_datetime_range d cur e \<Longrightarrow> cur + slot_length \<le> datetime_max d"
  by (simp add: within_datetime_range_def)

lemma within_range_step:
  assumes "cur + slot_length \<le> e"
  shows "within_datetime_range d (cur + slot_length) e = within_datetime_range d cur e"
  by (simp add: within_datetime_range_def spec_tiling_step [OF assms] add.assoc
      add.left_commute)

lemma within_range_stop:
  assumes "\<not> cur + slot_length \<le> e"
  shows "within_datetime_range d cur e = (cur + slot_length \<le> datetime_max d)"
  by (simp add: within_datetime_range_def spec_tiling_stop [OF assms])

lemma tile_within:
  assumes "within_datetime_range d cur e"
  shows "tile ex kid d cur e (slots, reads) =
           (Inr (slots @ filter (survives ex) (spec_tiling d cur e)),
            reads @ map (overlap_read kid) (spec_tiling d cur e))"
  using assms
proof (induction ex kid d cur e "(slots, reads)" arbitrary: slots reads rule: tile.induct)
  case (1 ex kid d cur e slots reads)
  from "1.prems" have no: "\<not> datetime_max d < cur + slot_length"
    using within_range_first by fastforce
  show ?case
  proof (cases "cur + slot_length \<le> e")
    case True
    with "1.prems" have "within_datetime_range d (cur + slot_length) e"
      by (simp add: within_range_step)
    with True no "1.hyps" show ?thesis
      by (subst tile.simps)
        (simp add: spec_tiling_step survives_def overlap_read_def make_slot_def Let_def)
  next
    case False
    with no show ?thesis
      by (subst tile.simps) (simp add: spec_tiling_stop)
  qed
qed

lemma tile_overflow:
  assumes "\<not> within_datetime_range d cur e"
  shows "fst (tile ex kid d cur e (slots, reads)) = Inl OverflowError"
  using assms
proof (induction ex kid d cur e "(slots, reads)" arbitrary: slots reads rule: tile.induct)
  case (1 ex kid d cur e slots reads)
  show ?case
  proof (cases "datetime_max d < cur + slot_length")
    case True
    then show ?thesis by (subst tile.simps) simp
  next
    case no: False
    show ?thesis
    proof (cases "cur + slot_length \<le> e")
      case True
      with "1.prems" have "\<not> within_datetime_range d (cur + slot_length) e"
        by (simp add: within_range_step)
      with True no "1.hyps" show ?thesis
        by (subst tile.simps) (simp add: Let_def)
    next
      case False
      with "1.prems" no show ?thesis
        by (simp add: within_range_stop)
    qed
  qed
qed

lemma for_avail_within:
  assumes "\<forall>w \<in> set ws. within_datetime_range d (av_start_time w) (av_end_time w)"
  shows "for_avail ex kid d ws (slots, reads) =
           (Inr (slots @ concat (map (\<lambda>w. filter (survives ex)
                                    (spec_tiling d (av_start_time w) (av_end_time w))) ws)),
            reads @ concat (map (\<lambda>w. map (overlap_read kid)
                                    (spec_tiling d (av_start_time w) (av_end_time w))) ws))"
  using assms
proof (induction ws arbitrary: slots reads)
  case Nil
  then show ?case by simp
next
  case (Cons w ws)
  from Cons.prems have "within_datetime_range d (av_start_time w) (av_end_time w)"
    by simp
  then have "tile ex kid d (av_start_time w) (av_end_time w) (slots, reads) =
           (Inr (slots @ filter (survives ex) (spec_tiling d (av_start_time w) (av_end_time w))),
            reads @ map (overlap_read kid) (spec_tiling d (av_start_time w) (av_end_time w)))"
    by (rule tile_within)
  moreover from Cons.prems have
    "\<forall>w \<in> set ws. within_datetime_range d (av_start_time w) (av_end_time w)"
    by simp
  ultimately show ?case
    using Cons.IH by simp
qed

lemma for_avail_overflow:
  assumes "\<not> (\<forall>w \<in> set ws. within_datetime_range d (av_start_time w) (av_end_time w))"
  shows "fst (for_avail ex kid d ws (slots, reads)) = Inl OverflowError"
  using assms
proof (induction ws arbitrary: slots reads)
  case Nil
  then show ?case by simp
next
  case (Cons w ws)
  show ?case
  proof (cases "within_datetime_range d (av_start_time w) (av_end_time w)")
    case True
    with Cons.prems have
      "\<not> (\<forall>w \<in> set ws. within_datetime_range d (av_start_time w) (av_end_time w))"
      by simp
    with True Cons.IH show ?thesis
      by (simp add: tile_within)
  next
    case False
    then have "fst (tile ex kid d (av_start_time w) (av_end_time w) (slots, reads)) =
                 Inl OverflowError"
      by (rule tile_overflow)
    then obtain reads' where
      "tile ex kid d (av_start_time w) (av_end_time w) (slots, reads) =
         (Inl OverflowError, reads')"
      by (cases "tile ex kid d (av_start_time w) (av_end_time w) (slots, reads)") simp
    then show ?thesis by simp
  qed
qed

lemma slots_get_fst:
  assumes "s \<noteq> []" and "strptime s = Some d"
    and "\<forall>w \<in> set (availability_filter st kid (weekday d)).
           within_datetime_range d (av_start_time w) (av_end_time w)"
  shows "fst (slots_get strptime st kid (Some s)) =
           (HTTP_200_OK,
            Slot_list (concat (map (\<lambda>w. filter (survives (appointment_filter st kid d))
                                          (spec_tiling d (av_start_time w) (av_end_time w)))
                                 (availability_filter st kid (weekday d)))))"
proof (cases "availability_filter st kid (weekday d) = []")
  case True
  with assms show ?thesis by (simp add: slots_get_def)
next
  case False
  with assms show ?thesis
    by (simp add: slots_get_def Let_def for_avail_within)
qed

lemma slots_get_overflow:
  assumes "s \<noteq> []" and "strptime s = Some d"
    and "\<not> (\<forall>w \<in> set (availability_filter st kid (weekday d)).
              within_datetime_range d (av_start_time w) (av_end_time w))"
  shows "fst (slots_get strptime st kid (Some s)) =
           (HTTP_500_INTERNAL_SERVER_ERROR, Unhandled OverflowError)"
proof -
  from assms(3) have ne: "availability_filter st kid (weekday d) \<noteq> []"
    by auto
  have "fst (for_avail (appointment_filter st kid d) kid d
               (availability_filter st kid (weekday d))
               ([], [Availability_exists kid (weekday d), Availability_rows kid (weekday d)])) =
          Inl OverflowError"
    using assms(3) by (rule for_avail_overflow)
  then obtain reads where
    "for_avail (appointment_filter st kid d) kid d (availability_filter st kid (weekday d))
       ([], [Availability_exists kid (weekday d), Availability_rows kid (weekday d)]) =
     (Inl OverflowError, reads)"
    by (metis prod.collapse)
  with assms(1,2) ne show ?thesis
    by (simp add: slots_get_def Let_def)
qed


lemma survives_iff:
  "survives qs s \<longleftrightarrow>
     (\<forall>a \<in> set qs. \<not> (sl_start_time s < ap_end_time a \<and> ap_start_time a < sl_end_time s))"
  by (auto simp: survives_def overlap_exists_def filter_empty_conv)

lemma slots_get_ok_date:
  assumes "fst (slots_get strptime st kid date_str) = (HTTP_200_OK, body)"
  shows "\<exists>s d. date_str = Some s \<and> s \<noteq> [] \<and> strptime s = Some d"
proof (cases date_str)
  case None
  with assms show ?thesis by (simp add: slots_get_def)
next
  case (Some s)
  show ?thesis
  proof (cases "s = [] \<or> strptime s = None")
    case True
    with assms Some show ?thesis by (auto simp: slots_get_def split: if_splits)
  next
    case False
    with Some show ?thesis by auto
  qed
qed

lemma slots_get_ok_range:
  assumes r: "fst (slots_get strptime st kid (Some s)) = (HTTP_200_OK, body)"
    and d: "strptime s = Some d"
  shows "\<forall>w \<in> set (availability_filter st kid (weekday d)).
           within_datetime_range d (av_start_time w) (av_end_time w)"
proof (rule ccontr)
  assume n: "\<not> (\<forall>w \<in> set (availability_filter st kid (weekday d)).
                   within_datetime_range d (av_start_time w) (av_end_time w))"
  from slots_get_ok_date [OF r] have "s \<noteq> []" by simp
  from slots_get_overflow [where s = s and strptime = strptime and d = d and st = st
      and kid = kid, OF this d n] r
  show False by simp
qed

lemma monday_date: "py ''2024-01-01'' \<noteq> [] \<and> example_strptime (py ''2024-01-01'') = Some 738886"
  by (simp add: py_def example_strptime_def)

lemma monday_tiling:
  "spec_tiling d (hm 9 0) (hm 10 30) =
     [make_slot d (hm 9 0) (hm 9 45), make_slot d (hm 9 45) (hm 10 30)]"
  by (simp add: spec_tiling_def hm_def slot_length_def timedelta_minutes_def SLOT_MINUTES_def
      upt_conv_Cons)

lemma monday_in_range: "within_datetime_range d (hm 9 0) (hm 10 30)"
  unfolding within_datetime_range_def monday_tiling
  by (simp add: datetime_max_def hm_def slot_length_def day_length_def timedelta_minutes_def
      SLOT_MINUTES_def)

section \<open>Reading the slots of an answer\<close>

lemma slots_get_members:
  assumes r: "fst (slots_get strptime st kid date_str) = (HTTP_200_OK, Slot_list slots)"
  obtains s d where "date_str = Some s" and "s \<noteq> []" and "strptime s = Some d"
    and "\<forall>w \<in> set (availability_filter st kid (weekday d)).
           within_datetime_range d (av_start_time w) (av_end_time w)"
    and "set slots = {c. survives (appointment_filter st kid d) c \<and>
           (\<exists>w \<in> set (availability_filter st kid (weekday d)).
              c \<in> set (spec_tiling d (av_start_time w) (av_end_time w)))}"
proof -
  from slots_get_ok_date [OF r] obtain s d where
    sd: "date_str = Some s" "s \<noteq> []" "strptime s = Some d"
    by blast
  from r sd have w: "\<forall>w \<in> set (availability_filter st kid (weekday d)).
           within_datetime_range d (av_start_time w) (av_end_time w)"
    using slots_get_ok_range [of strptime st kid s "Slot_list slots" d] by simp
  have "fst (slots_get strptime st kid (Some s)) =
           (HTTP_200_OK,
            Slot_list (concat (map (\<lambda>w. filter (survives (appointment_filter st kid d))
                                          (spec_tiling d (av_start_time w) (av_end_time w)))
                                 (availability_filter st kid (weekday d)))))"
    using sd(2,3) w by (rule slots_get_fst)
  with r sd have
    "slots = concat (map (\<lambda>w. filter (survives (appointment_filter st kid d))
                               (spec_tiling d (av_start_time w) (av_end_time w)))
                      (availability_filter st kid (weekday d)))"
    by simp
  then have "set slots = {c. survives (appointment_filter st kid d) c \<and>
           (\<exists>w \<in> set (availability_filter st kid (weekday d)).
              c \<in> set (spec_tiling d (av_start_time w) (av_end_time w)))}"
    by auto
  with sd w show thesis by (rule that)
qed

lemma monday_windows:
  "availability_filter (example_store\<lparr>appointments := xs\<rparr>) 3 (weekday 738886) = [monday_window]"
  by (simp add: availability_filter_def example_store_def monday_window_def weekday_def)

lemma monday_candidates:
  "make_slot 738886 (hm 9 0) (hm 9 45) \<in>
     set (spec_tiling 738886 (av_start_time monday_window) (av_end_time monday_window))"
  "make_slot 738886 (hm 9 45) (hm 10 30) \<in>
     set (spec_tiling 738886 (av_start_time monday_window) (av_end_time monday_window))"
  by (simp_all add: monday_window_def monday_tiling)

lemma booked_slots:
  assumes "ap_kinesiologist_id a = 3" and "ap_date a = 738886"
    and "ap_start_time a = hm 9 45" and "ap_end_time a = hm 10 30"
  shows "fst (slots_get example_strptime (example_store\<lparr>appointments := [a]\<rparr>) 3
                (Some (py ''2024-01-01''))) =
           (HTTP_200_OK, Slot_list [make_slot 738886 (hm 9 0) (hm 9 45)])"
proof -
  have f: "appointment_filter (example_store\<lparr>appointments := [a]\<rparr>) 3 738886 = [a]"
    using assms by (simp add: appointment_filter_def)
  have t: "spec_tiling 738886 (av_start_time monday_window) (av_end_time monday_window) =
             [make_slot 738886 (hm 9 0) (hm 9 45), make_slot 738886 (hm 9 45) (hm 10 30)]"
    by (simp add: monday_window_def monday_tiling)
  have s1: "survives [a] (make_slot 738886 (hm 9 0) (hm 9 45))"
    using assms by (simp add: survives_iff make_slot_def)
  have s2: "\<not> survives [a] (make_slot 738886 (hm 9 45) (hm 10 30))"
    using assms by (simp add: survives_iff make_slot_def hm_def timedelta_minutes_def)
  have r: "\<forall>w \<in> set (availability_filter (example_store\<lparr>appointments := [a]\<rparr>) 3
                            (weekday 738886)).
             within_datetime_range 738886 (av_start_time w) (av_end_time w)"
    by (simp add: monday_windows monday_window_def monday_in_range)
  from monday_date have "py ''2024-01-01'' \<noteq> []"
    and "example_strptime (py ''2024-01-01'') = Some 738886"
    by simp_all
  from slots_get_fst [where s = "py ''2024-01-01''" and strptime = example_strptime
      and d = 738886 and st = "example_store\<lparr>appointments := [a]\<rparr>" and kid = 3, OF this r]
  show ?thesis
    by (simp add: monday_windows f t s1 s2)
qed

section \<open>The reads of the slot loop\<close>

lemma slots_get_snd:
  assumes "s \<noteq> []" and "strptime s = Some d" and "availability_filter st kid (weekday d) \<noteq> []"
    and "\<forall>w \<in> set (availability_filter st kid (weekday d)).
           within_datetime_range d (av_start_time w) (av_end_time w)"
  shows "snd (slots_get strptime st kid (Some s)) =
           [Availability_exists kid (weekday d), Availability_rows kid (weekday d)] @
           concat (map (\<lambda>w. map (overlap_read kid)
                              (spec_tiling d (av_start_time w) (av_end_time w)))
                    (availability_filter st kid (weekday d)))"
  using assms by (simp add: slots_get_def Let_def for_avail_within)

section \<open>Looking an appointment up, saving it, stripping a comment\<close>

lemma find_map_preserving:
  assumes "\<And>x. P (g x) = P x"
  shows "find P (map g xs) = map_option g (find P xs)"
  using assms by (induction xs) auto

lemma foldr_copy_field_id [simp]:
  "ap_id (foldr (copy_field obj) fs row) = ap_id row"
proof (induction fs)
  case Nil
  then show ?case by simp
next
  case (Cons f fs)
  then show ?case by (cases f) simp_all
qed

lemma foldr_copy_field_kid [simp]:
  "ap_kinesiologist_id (foldr (copy_field obj) fs row) = ap_kinesiologist_id row"
proof (induction fs)
  case Nil
  then show ?case by simp
next
  case (Cons f fs)
  then show ?case by (cases f) simp_all
qed

lemma get_object_or_404_id:
  assumes "get_object_or_404 st aid = Some (a, k)"
  shows "ap_id a = aid"
proof -
  from assms have "find (\<lambda>a. ap_id a = aid) (appointments st) = Some a"
    by (auto simp: get_object_or_404_def split: option.splits)
  then show ?thesis
    by (auto simp: find_Some_iff)
qed

lemma get_after_save:
  assumes g: "get_object_or_404 st aid = Some (a, k)" and i: "ap_id obj = aid"
  shows "get_object_or_404 (save_update_fields st obj fs) aid =
           Some (foldr (copy_field obj) fs a, k)"
proof -
  let ?g = "\<lambda>row. if ap_id row = ap_id obj then foldr (copy_field obj) fs row else row"
  from g have fa: "find (\<lambda>a. ap_id a = aid) (appointments st) = Some a"
    and fk: "find (\<lambda>k. k_id k = ap_kinesiologist_id a) (kinesiologists st) = Some k"
    by (auto simp: get_object_or_404_def split: option.splits)
  have "find (\<lambda>a. ap_id a = aid) (map ?g (appointments st)) =
          map_option ?g (find (\<lambda>a. ap_id a = aid) (appointments st))"
    by (rule find_map_preserving) simp
  with fa have "find (\<lambda>a. ap_id a = aid) (map ?g (appointments st)) = Some (?g a)"
    by simp
  moreover have "?g a = foldr (copy_field obj) fs a"
    using get_object_or_404_id [OF g] i by simp
  ultimately show ?thesis
    using fk by (simp add: get_object_or_404_def save_update_fields_def)
qed

lemma strip_empty_iff: "strip s = [] \<longleftrightarrow> (\<forall>c \<in> set s. isspace c)"
proof
  assume "strip s = []"
  then have "\<forall>c \<in> set (dropWhile isspace s). isspace c"
    by (simp add: strip_def)
  then have "dropWhile isspace s = []"
    using hd_dropWhile [of isspace s] hd_in_set [of "dropWhile isspace s"] by blast
  then show "\<forall>c \<in> set s. isspace c"
    by simp
next
  assume "\<forall>c \<in> set s. isspace c"
  then have e: "dropWhile isspace s = []"
    by simp
  show "strip s = []"
    by (simp only: strip_def e rev.simps dropWhile.simps)
qed

lemma strip_last:
  assumes "strip s \<noteq> []"
  shows "\<not> isspace (last (strip s))"
proof -
  let ?t = "dropWhile isspace (rev (dropWhile isspace s))"
  from assms have "?t \<noteq> []" by (simp add: strip_def)
  then have "\<not> isspace (hd ?t)" by (rule hd_dropWhile)
  moreover have "last (strip s) = hd ?t"
    using \<open>?t \<noteq> []\<close> by (simp add: strip_def last_rev)
  ultimately show ?thesis by simp
qed

lemma rev_dropWhile_rev_hd:
  assumes "ys \<noteq> []" and "\<not> P (hd ys)"
  shows "hd (rev (dropWhile P (rev ys))) = hd ys"
proof -
  from assms obtain y zs where ys: "ys = y # zs" and y: "\<not> P y"
    by (cases ys) auto
  have "dropWhile P (rev zs @ [y]) = dropWhile P (rev zs) @ [y]"
    using y by (simp add: dropWhile_append)
  then show ?thesis by (simp add: ys)
qed

lemma strip_hd:
  assumes "strip s \<noteq> []"
  shows "\<not> isspace (hd (strip s))"
proof -
  let ?ys = "dropWhile isspace s"
  have ne: "?ys \<noteq> []"
  proof
    assume e: "?ys = []"
    have "strip s = []"
      by (simp only: strip_def e rev.simps dropWhile.simps)
    with assms show False by simp
  qed
  then have h: "\<not> isspace (hd ?ys)" by (rule hd_dropWhile)
  from rev_dropWhile_rev_hd [where P = isspace and ys = "?ys", OF ne h] h show ?thesis
    by (simp add: strip_def)
qed

lemma status_patch_ok:
  assumes g: "get_object_or_404 st aid = Some (a, k)" and p: "u_id request_user = k_user k"
    and s: "s = py ''confirmed'' \<or> s = py ''cancelled''"
  shows "status_patch st request_user aid (PStr s) =
           (HTTP_200_OK, save_update_fields st (a\<lparr>ap_status := s\<rparr>) [F_status])"
  using assms by (auto simp: status_patch_def)

lemma comment_patch_ok:
  assumes g: "get_object_or_404 st aid = Some (a, k)" and p: "u_id request_user = k_user k"
    and c: "truthy c" "strip (py_str c) \<noteq> []"
  shows "comment_patch st request_user now aid c =
           (HTTP_200_OK,
            save_update_fields st
              (a\<lparr>ap_kine_comment := Some (strip (py_str c)), ap_status := py ''completed'',
                 ap_comment_updated_at := Some now\<rparr>)
              [F_kine_comment, F_status, F_comment_updated_at])"
  using assms by (simp add: comment_patch_def)

lemma comment_patch_blank:
  assumes g: "get_object_or_404 st aid = Some (a, k)" and p: "u_id request_user = k_user k"
    and c: "\<not> truthy c \<or> strip (py_str c) = []"
  shows "comment_patch st request_user now aid c = (HTTP_400_BAD_REQUEST, st)"
  using assms by (auto simp: comment_patch_def)

lemma stored_after_status:
  assumes g: "get_object_or_404 st aid = Some (a, k)"
  shows "get_object_or_404 (save_update_fields st (a\<lparr>ap_status := s\<rparr>) [F_status]) aid =
           Some (a\<lparr>ap_status := s\<rparr>, k)"
  using get_after_save [OF g, of "a\<lparr>ap_status := s\<rparr>" "[F_status]"]
    get_object_or_404_id [OF g]
  by simp

lemma stored_after_comment:
  assumes g: "get_object_or_404 st aid = Some (a, k)"
  shows "get_object_or_404
           (save_update_fields st
              (a\<lparr>ap_kine_comment := Some t, ap_status := py ''completed'',
                 ap_comment_updated_at := Some now\<rparr>)
              [F_kine_comment, F_status, F_comment_updated_at]) aid =
           Some (a\<lparr>ap_kine_comment := Some t, ap_status := py ''completed'',
                   ap_comment_updated_at := Some now\<rparr>, k)"
  using get_after_save [OF g, of "a\<lparr>ap_kine_comment := Some t, ap_status := py ''completed'',
                 ap_comment_updated_at := Some now\<rparr>" "[F_kine_comment, F_status, F_comment_updated_at]"]
    get_object_or_404_id [OF g]
  by simp

lemma get_cancelled:
  "get_object_or_404 cancelled_store 7 = Some (cancelled_appointment, \<lparr>k_id = 3, k_user = 10\<rparr>)"
  by (simp add: get_object_or_404_def cancelled_store_def example_store_def
      cancelled_appointment_def confirmed_appointment_def)

lemma get_booked:
  "get_object_or_404 booked_store 7 = Some (confirmed_appointment, \<lparr>k_id = 3, k_user = 10\<rparr>)"
  by (simp add: get_object_or_404_def booked_store_def example_store_def
      confirmed_appointment_def)

lemma literals_distinct:
  "py ''confirmed'' \<noteq> py ''cancelled''" "py ''confirmed'' \<noteq> py ''completed''"
  "py ''cancelled'' \<noteq> py ''completed''"
  by (simp_all add: py_def)

lemma provider_is_assigned: "u_id provider = k_user \<lparr>k_id = 3, k_user = 10\<rparr>"
  by (simp add: provider_def)

lemma strip_ok: "strip (py '' ok '') = py ''ok''"
  by (simp add: strip_def py_def isspace_def)

section \<open>Slots are tiled from the availability windows\<close>




section \<open>Returned slots and existing appointments\<close>

text \<open>
  Claim C2. No slot that the view returns overlaps an appointment of that kinesiologist
  and date whose status is not terminal (neither Cancelled nor Completed, that is,
  Requested or Confirmed), where a slot and an appointment overlap when the slot starts
  before the appointment ends and the appointment starts before the slot ends. The
  intervals are half-open: a candidate slot of a window of the day that every
  appointment of that kinesiologist and date either precedes (the appointment ends at or
  before the slot's start) or follows (it starts at or after the slot's end) is returned,
  so a slot that only touches an appointment at an endpoint is not excluded.
\<close>

theorem listAvailableSlots_no_overlap:
  assumes r: "fst (slots_get strptime st kid date_str) = (HTTP_200_OK, Slot_list slots)"
  shows "(\<forall>s \<in> set slots. \<forall>a \<in> set (appointments st).
            ap_kinesiologist_id a = kid \<and> ap_date a = sl_date s \<and>
            ap_status a \<noteq> py ''cancelled'' \<and> ap_status a \<noteq> py ''completed'' \<longrightarrow>
            \<not> (sl_start_time s < ap_end_time a \<and> ap_start_time a < sl_end_time s))
       \<and> (\<forall>ds d w c. date_str = Some ds \<and> strptime ds = Some d \<and>
            w \<in> set (availability_filter st kid (weekday d)) \<and>
            c \<in> set (spec_tiling d (av_start_time w) (av_end_time w)) \<and>
            (\<forall>a \<in> set (appointment_filter st kid d).
               ap_end_time a \<le> sl_start_time c \<or> sl_end_time c \<le> ap_start_time a) \<longrightarrow>
            c \<in> set slots)"
proof -
  from r obtain s0 d0 where sd: "date_str = Some s0" "strptime s0 = Some d0"
    and m: "set slots = {c. survives (appointment_filter st kid d0) c \<and>
           (\<exists>w \<in> set (availability_filter st kid (weekday d0)).
              c \<in> set (spec_tiling d0 (av_start_time w) (av_end_time w)))}"
    by (rule slots_get_members)
  have sound: "\<not> (sl_start_time s < ap_end_time a \<and> ap_start_time a < sl_end_time s)"
    if "s \<in> set slots" "a \<in> set (appointments st)" "ap_kinesiologist_id a = kid"
      "ap_date a = sl_date s" for s a
  proof -
    from that(1) m have sv: "survives (appointment_filter st kid d0) s" and "sl_date s = d0"
      by (auto dest: spec_tiling_date)
    with that have "a \<in> set (appointment_filter st kid d0)"
      by (simp add: appointment_filter_def)
    with sv show ?thesis
      by (simp add: survives_iff)
  qed
  have complete: "c \<in> set slots"
    if "date_str = Some ds" "strptime ds = Some d"
      "w \<in> set (availability_filter st kid (weekday d))"
      "c \<in> set (spec_tiling d (av_start_time w) (av_end_time w))"
      "\<forall>a \<in> set (appointment_filter st kid d).
         ap_end_time a \<le> sl_start_time c \<or> sl_end_time c \<le> ap_start_time a"
    for ds d w c
  proof -
    from that sd have "d = d0" by simp
    moreover from that(5) have "survives (appointment_filter st kid d) c"
      by (fastforce simp: survives_iff)
    ultimately show ?thesis using that m by auto
  qed
  from sound complete show ?thesis by blast
qed

theorem listAvailableSlots_no_overlap_witness:
  "fst (slots_get example_strptime booked_store 3 (Some (py ''2024-01-01''))) =
     (HTTP_200_OK, Slot_list [make_slot 738886 (hm 9 0) (hm 9 45)])
   \<and> \<not> (sl_start_time (make_slot 738886 (hm 9 0) (hm 9 45)) < ap_end_time confirmed_appointment \<and>
        ap_start_time confirmed_appointment < sl_end_time (make_slot 738886 (hm 9 0) (hm 9 45)))
   \<and> sl_end_time (make_slot 738886 (hm 9 0) (hm 9 45)) = ap_start_time confirmed_appointment"
proof -
  let ?s = "make_slot 738886 (hm 9 0) (hm 9 45)"
  have r: "fst (slots_get example_strptime booked_store 3 (Some (py ''2024-01-01''))) =
             (HTTP_200_OK, Slot_list [?s])"
    unfolding booked_store_def
    by (rule booked_slots) (simp_all add: confirmed_appointment_def)
  have a: "confirmed_appointment \<in> set (appointments booked_store)"
    by (simp add: booked_store_def)
  have b: "ap_kinesiologist_id confirmed_appointment = 3 \<and>
           ap_date confirmed_appointment = sl_date ?s \<and>
           ap_status confirmed_appointment \<noteq> py ''cancelled'' \<and>
           ap_status confirmed_appointment \<noteq> py ''completed''"
    by (simp add: confirmed_appointment_def make_slot_def py_def)
  have s: "?s \<in> set [?s]"
    by simp
  from listAvailableSlots_no_overlap [OF r] s a b
  have "\<not> (sl_start_time ?s < ap_end_time confirmed_appointment \<and>
           ap_start_time confirmed_appointment < sl_end_time ?s)"
    by blast
  moreover have "sl_end_time ?s = ap_start_time confirmed_appointment"
    by (simp add: make_slot_def confirmed_appointment_def)
  ultimately show ?thesis
    using r by simp
qed

text \<open>
  Claim C7. For every candidate slot of a window of the day the view makes one overlap
  read, and that read runs against every appointment of the kinesiologist and date,
  whatever its status, Cancelled included: a candidate slot that overlaps such an
  appointment is not among the returned slots.
\<close>

theorem listAvailableSlots_ignores_status:
  assumes r: "fst (slots_get strptime st kid (Some date_str)) = (HTTP_200_OK, Slot_list slots)"
    and d: "strptime date_str = Some d"
    and w: "w \<in> set (availability_filter st kid (weekday d))"
    and c: "c \<in> set (spec_tiling d (av_start_time w) (av_end_time w))"
  shows "Appointment_overlap_exists kid d (sl_end_time c) (sl_start_time c) \<in>
           set (snd (slots_get strptime st kid (Some date_str)))
       \<and> (\<forall>a \<in> set (appointments st).
            ap_kinesiologist_id a = kid \<and> ap_date a = d \<and>
            sl_start_time c < ap_end_time a \<and> ap_start_time a < sl_end_time c \<longrightarrow>
            c \<notin> set slots)"
proof -
  from r obtain s0 d0 where sd: "Some date_str = Some s0" "s0 \<noteq> []" "strptime s0 = Some d0"
    and wr: "\<forall>w \<in> set (availability_filter st kid (weekday d0)).
               within_datetime_range d0 (av_start_time w) (av_end_time w)"
    and m: "set slots = {c. survives (appointment_filter st kid d0) c \<and>
           (\<exists>w \<in> set (availability_filter st kid (weekday d0)).
              c \<in> set (spec_tiling d0 (av_start_time w) (av_end_time w)))}"
    by (rule slots_get_members)
  from sd d have d0: "d0 = d" and ne: "date_str \<noteq> []" by simp_all
  from wr d0 have wr': "\<forall>w \<in> set (availability_filter st kid (weekday d)).
               within_datetime_range d (av_start_time w) (av_end_time w)"
    by simp
  from w have "availability_filter st kid (weekday d) \<noteq> []" by auto
  from slots_get_snd [where s = date_str and strptime = strptime and d = d and st = st
      and kid = kid, OF ne d this wr'] w c
  have "overlap_read kid c \<in> set (snd (slots_get strptime st kid (Some date_str)))"
    by auto
  then have 1: "Appointment_overlap_exists kid d (sl_end_time c) (sl_start_time c) \<in>
           set (snd (slots_get strptime st kid (Some date_str)))"
    using spec_tiling_date [OF c] by (simp add: overlap_read_def)
  have 2: "c \<notin> set slots"
    if a: "a \<in> set (appointments st)" "ap_kinesiologist_id a = kid" "ap_date a = d"
      and o: "sl_start_time c < ap_end_time a" "ap_start_time a < sl_end_time c" for a
  proof
    assume "c \<in> set slots"
    with m d0 have "survives (appointment_filter st kid d) c" by simp
    moreover from a have "a \<in> set (appointment_filter st kid d)"
      by (simp add: appointment_filter_def)
    ultimately show False
      using o by (auto simp: survives_iff)
  qed
  from 1 2 show ?thesis by blast
qed

theorem listAvailableSlots_ignores_status_witness:
  "fst (slots_get example_strptime cancelled_store 3 (Some (py ''2024-01-01''))) =
     (HTTP_200_OK, Slot_list [make_slot 738886 (hm 9 0) (hm 9 45)])
   \<and> ap_status cancelled_appointment = py ''cancelled''
   \<and> Appointment_overlap_exists 3 738886 (hm 10 30) (hm 9 45) \<in>
       set (snd (slots_get example_strptime cancelled_store 3 (Some (py ''2024-01-01''))))
   \<and> make_slot 738886 (hm 9 45) (hm 10 30) \<notin> set [make_slot 738886 (hm 9 0) (hm 9 45)]"
proof -
  let ?c = "make_slot 738886 (hm 9 45) (hm 10 30)"
  have r: "fst (slots_get example_strptime cancelled_store 3 (Some (py ''2024-01-01''))) =
             (HTTP_200_OK, Slot_list [make_slot 738886 (hm 9 0) (hm 9 45)])"
    unfolding cancelled_store_def
    by (rule booked_slots) (simp_all add: cancelled_appointment_def confirmed_appointment_def)
  have d: "example_strptime (py ''2024-01-01'') = Some 738886"
    using monday_date by simp
  have w: "monday_window \<in> set (availability_filter cancelled_store 3 (weekday 738886))"
    by (simp add: cancelled_store_def monday_windows)
  have a: "cancelled_appointment \<in> set (appointments cancelled_store)"
    "ap_kinesiologist_id cancelled_appointment = 3 \<and> ap_date cancelled_appointment = 738886"
    by (simp_all add: cancelled_store_def cancelled_appointment_def confirmed_appointment_def)
  have o: "sl_start_time ?c < ap_end_time cancelled_appointment \<and>
           ap_start_time cancelled_appointment < sl_end_time ?c"
    by (simp add: make_slot_def cancelled_appointment_def confirmed_appointment_def hm_def
        timedelta_minutes_def)
  note th = listAvailableSlots_ignores_status [OF r d w monday_candidates(2)]
  from th a o have "?c \<notin> set [make_slot 738886 (hm 9 0) (hm 9 45)]"
    by blast
  moreover from th have "Appointment_overlap_exists 3 738886 (hm 10 30) (hm 9 45) \<in>
       set (snd (slots_get example_strptime cancelled_store 3 (Some (py ''2024-01-01''))))"
    by (simp add: make_slot_def)
  moreover have "ap_status cancelled_appointment = py ''cancelled''"
    by (simp add: cancelled_appointment_def)
  ultimately show ?thesis
    using r by simp
qed

section \<open>Bad dates and days without availability\<close>

text \<open>
  Claim C6. When the date parameter is missing, empty or does not parse, the view answers
  400 and has made no read of the store, neither of availability nor of appointments.
  When the store has availability windows but none of them is of the kinesiologist on
  the queried day of the week, the view answers 200 with the empty list (its only read
  is the existence test on the availability).
\<close>

theorem listAvailableSlots_bad_date_no_lookup:
  "(date_str = None \<or> date_str = Some [] \<or> (\<exists>s. date_str = Some s \<and> strptime s = None) \<longrightarrow>
      slots_get strptime st kid date_str = ((HTTP_400_BAD_REQUEST, Detail), []))
   \<and> (date_str = Some s \<and> s \<noteq> [] \<and> strptime s = Some d \<and> availabilities st \<noteq> [] \<and>
      (\<forall>w \<in> set (availabilities st). \<not> (av_kinesiologist_id w = kid \<and> av_day w = weekday d)) \<longrightarrow>
      slots_get strptime st kid date_str =
        ((HTTP_200_OK, Slot_list []), [Availability_exists kid (weekday d)]))"
  by (auto simp: slots_get_def availability_filter_def filter_empty_conv split: option.splits)

theorem listAvailableSlots_bad_date_no_lookup_witness:
  "slots_get example_strptime example_store 3 None = ((HTTP_400_BAD_REQUEST, Detail), [])
   \<and> slots_get example_strptime example_store 3 (Some (py ''01/01/2024'')) =
       ((HTTP_400_BAD_REQUEST, Detail), [])
   \<and> slots_get example_strptime example_store 3 (Some (py ''2024-01-02'')) =
       ((HTTP_200_OK, Slot_list []), [Availability_exists 3 1])"
proof -
  have bad: "example_strptime (py ''01/01/2024'') = None"
    by (simp add: example_strptime_def py_def)
  have tue: "py ''2024-01-02'' \<noteq> [] \<and> example_strptime (py ''2024-01-02'') = Some 738887 \<and>
             weekday 738887 = 1"
    by (simp add: example_strptime_def py_def weekday_def)
  have av: "availabilities example_store \<noteq> [] \<and>
            (\<forall>w \<in> set (availabilities example_store).
               \<not> (av_kinesiologist_id w = 3 \<and> av_day w = weekday 738887))"
    by (simp add: example_store_def monday_window_def weekday_def)
  from listAvailableSlots_bad_date_no_lookup [of None example_strptime example_store 3]
  have 1: "slots_get example_strptime example_store 3 None = ((HTTP_400_BAD_REQUEST, Detail), [])"
    by blast
  from listAvailableSlots_bad_date_no_lookup [of "Some (py ''01/01/2024'')" example_strptime example_store 3] bad
  have 2: "slots_get example_strptime example_store 3 (Some (py ''01/01/2024'')) =
             ((HTTP_400_BAD_REQUEST, Detail), [])"
    by blast
  from listAvailableSlots_bad_date_no_lookup [of "Some (py ''2024-01-02'')" example_strptime example_store 3 "py ''2024-01-02''"
      738887] tue av
  have 3: "slots_get example_strptime example_store 3 (Some (py ''2024-01-02'')) =
             ((HTTP_200_OK, Slot_list []), [Availability_exists 3 1])"
    by simp
  from 1 2 3 show ?thesis by simp
qed

section \<open>The appointment lifecycle\<close>

text \<open>
  Against claim C3 as it is stated: a Cancelled appointment whose assigned provider asks
  for the status Confirmed. The view answers 200 and the stored appointment becomes
  Confirmed; neither view reads the current status.
\<close>

theorem terminal_transition_counterexample:
  "get_object_or_404 cancelled_store 7 = Some (cancelled_appointment, \<lparr>k_id = 3, k_user = 10\<rparr>)
   \<and> ap_status cancelled_appointment = py ''cancelled''
   \<and> u_id provider = 10
   \<and> status_patch cancelled_store provider 7 (PStr (py ''confirmed'')) = (HTTP_200_OK, booked_store)
   \<and> booked_store \<noteq> cancelled_store"
proof -
  have p: "u_id provider = k_user \<lparr>k_id = 3, k_user = 10\<rparr>"
    by (simp add: provider_def)
  have "save_update_fields cancelled_store
          (cancelled_appointment\<lparr>ap_status := py ''confirmed''\<rparr>) [F_status] = booked_store"
    by (simp add: save_update_fields_def cancelled_store_def booked_store_def
        cancelled_appointment_def confirmed_appointment_def)
  with status_patch_ok [OF get_cancelled p, of "py ''confirmed''"]
  have "status_patch cancelled_store provider 7 (PStr (py ''confirmed'')) =
          (HTTP_200_OK, booked_store)"
    by simp
  moreover have "booked_store \<noteq> cancelled_store"
  proof
    assume "booked_store = cancelled_store"
    then have "appointments booked_store = appointments cancelled_store" by simp
    then show False
      by (simp add: booked_store_def cancelled_store_def cancelled_appointment_def
          confirmed_appointment_def literals_distinct)
  qed
  ultimately show ?thesis
    using get_cancelled by (simp add: cancelled_appointment_def provider_def)
qed

text \<open>
  Claim C3, as amended. For an appointment whose status is Cancelled or Completed, the
  transitions asked by the assigned provider are not refused for that status: a status
  update to Confirmed or Cancelled answers 200 and the stored appointment has the new
  status; a comment that is not blank answers 200 and the stored appointment has the
  stripped comment, the status Completed and the timestamp. The call answers 400 and
  leaves the store unchanged only when the comment is blank (falsy, or whitespace only)
  or the requested status is neither \<open>confirmed\<close> nor \<open>cancelled\<close>.
\<close>

theorem terminal_transitions_unchecked:
  assumes g: "get_object_or_404 st aid = Some (a, k)"
    and t: "ap_status a = py ''cancelled'' \<or> ap_status a = py ''completed''"
    and p: "u_id request_user = k_user k"
  shows "(s = py ''confirmed'' \<or> s = py ''cancelled'' \<longrightarrow>
            fst (status_patch st request_user aid (PStr s)) = HTTP_200_OK \<and>
            get_object_or_404 (snd (status_patch st request_user aid (PStr s))) aid =
              Some (a\<lparr>ap_status := s\<rparr>, k))
       \<and> (truthy c \<and> strip (py_str c) \<noteq> [] \<longrightarrow>
            fst (comment_patch st request_user now aid c) = HTTP_200_OK \<and>
            get_object_or_404 (snd (comment_patch st request_user now aid c)) aid =
              Some (a\<lparr>ap_kine_comment := Some (strip (py_str c)),
                      ap_status := py ''completed'',
                      ap_comment_updated_at := Some now\<rparr>, k))
       \<and> (\<not> truthy c \<or> strip (py_str c) = [] \<longrightarrow>
            comment_patch st request_user now aid c = (HTTP_400_BAD_REQUEST, st))
       \<and> (v \<noteq> PStr (py ''confirmed'') \<and> v \<noteq> PStr (py ''cancelled'') \<longrightarrow>
            status_patch st request_user aid v = (HTTP_400_BAD_REQUEST, st))"
proof -
  have 1: "fst (status_patch st request_user aid (PStr s)) = HTTP_200_OK \<and>
           get_object_or_404 (snd (status_patch st request_user aid (PStr s))) aid =
             Some (a\<lparr>ap_status := s\<rparr>, k)"
    if "s = py ''confirmed'' \<or> s = py ''cancelled''"
    using status_patch_ok [OF g p that] stored_after_status [OF g] by simp
  have 2: "fst (comment_patch st request_user now aid c) = HTTP_200_OK \<and>
           get_object_or_404 (snd (comment_patch st request_user now aid c)) aid =
             Some (a\<lparr>ap_kine_comment := Some (strip (py_str c)),
                     ap_status := py ''completed'',
                     ap_comment_updated_at := Some now\<rparr>, k)"
    if "truthy c" "strip (py_str c) \<noteq> []"
    using comment_patch_ok [OF g p that] stored_after_comment [OF g] by simp
  have 3: "comment_patch st request_user now aid c = (HTTP_400_BAD_REQUEST, st)"
    if "\<not> truthy c \<or> strip (py_str c) = []"
    using comment_patch_blank [OF g p that] .
  have 4: "status_patch st request_user aid v = (HTTP_400_BAD_REQUEST, st)"
    if "v \<noteq> PStr (py ''confirmed'')" "v \<noteq> PStr (py ''cancelled'')"
    using g p that by (cases v) (auto simp: status_patch_def)
  from 1 2 3 4 show ?thesis by blast
qed

theorem terminal_transitions_unchecked_witness:
  "status_patch cancelled_store provider 7 (PStr (py ''cancelled'')) \<noteq>
     (HTTP_400_BAD_REQUEST, cancelled_store)
   \<and> get_object_or_404 (snd (status_patch cancelled_store provider 7 (PStr (py ''confirmed'')))) 7 =
       Some (confirmed_appointment, \<lparr>k_id = 3, k_user = 10\<rparr>)
   \<and> comment_patch cancelled_store provider 5 7 (PStr (py ''  '')) =
       (HTTP_400_BAD_REQUEST, cancelled_store)"
proof -
  have t: "ap_status cancelled_appointment = py ''cancelled'' \<or>
           ap_status cancelled_appointment = py ''completed''"
    by (simp add: cancelled_appointment_def)
  have p: "u_id provider = k_user \<lparr>k_id = 3, k_user = 10\<rparr>"
    by (simp add: provider_def)
  have b: "\<not> truthy (PStr (py ''  '')) \<or> strip (py_str (PStr (py ''  ''))) = []"
    by (simp add: strip_def py_def isspace_def)
  note th = terminal_transitions_unchecked [OF get_cancelled t p, where now = 5]
  from th [of "py ''cancelled''"]
  have 1: "fst (status_patch cancelled_store provider 7 (PStr (py ''cancelled''))) = HTTP_200_OK"
    by simp
  from th [of "py ''confirmed''"]
  have 2: "get_object_or_404
             (snd (status_patch cancelled_store provider 7 (PStr (py ''confirmed'')))) 7 =
           Some (cancelled_appointment\<lparr>ap_status := py ''confirmed''\<rparr>, \<lparr>k_id = 3, k_user = 10\<rparr>)"
    by simp
  from th [where c = "PStr (py ''  '')"] b
  have 3: "comment_patch cancelled_store provider 5 7 (PStr (py ''  '')) =
             (HTTP_400_BAD_REQUEST, cancelled_store)"
    by blast
  have 4: "cancelled_appointment\<lparr>ap_status := py ''confirmed''\<rparr> = confirmed_appointment"
    by (simp add: cancelled_appointment_def confirmed_appointment_def)
  from 1 have "status_patch cancelled_store provider 7 (PStr (py ''cancelled'')) \<noteq>
     (HTTP_400_BAD_REQUEST, cancelled_store)"
    by auto
  with 2 3 4 show ?thesis by simp
qed

text \<open>
  Claim C4. A comment submission by the assigned provider: when the comment is absent,
  empty or made of whitespace only, the answer is 400 and the store is unchanged; when it
  is a text with a character that is not whitespace, the answer is 200 and the store is
  the result of one \<open>save\<close> that writes the three fields comment, status and timestamp
  together. Whatever was submitted, the outcome is one of these two, never a write of
  part of the three fields; the 400 case is exactly the one where the submitted value is
  falsy (absent, empty, or a value other than a text that counts as false) or its
  \<open>str()\<close> is whitespace only. After the \<open>save\<close> the stored appointment is the old one
  with the stripped comment, the status Completed and the timestamp.
\<close>

theorem comment_submission_atomic:
  assumes g: "get_object_or_404 st aid = Some (a, k)" and p: "u_id request_user = k_user k"
  shows "(c = PNone \<or> (\<exists>s. c = PStr s \<and> (\<forall>x \<in> set s. isspace x)) \<longrightarrow>
            comment_patch st request_user now aid c = (HTTP_400_BAD_REQUEST, st))
       \<and> ((\<exists>s. c = PStr s \<and> (\<exists>x \<in> set s. \<not> isspace x)) \<longrightarrow>
            comment_patch st request_user now aid c =
              (HTTP_200_OK,
               save_update_fields st
                 (a\<lparr>ap_kine_comment := Some (strip (py_str c)), ap_status := py ''completed'',
                    ap_comment_updated_at := Some now\<rparr>)
                 [F_kine_comment, F_status, F_comment_updated_at]))
       \<and> (comment_patch st request_user now aid c = (HTTP_400_BAD_REQUEST, st) \<or>
          comment_patch st request_user now aid c =
              (HTTP_200_OK,
               save_update_fields st
                 (a\<lparr>ap_kine_comment := Some (strip (py_str c)), ap_status := py ''completed'',
                    ap_comment_updated_at := Some now\<rparr>)
                 [F_kine_comment, F_status, F_comment_updated_at]))
       \<and> (fst (comment_patch st request_user now aid c) = HTTP_400_BAD_REQUEST) =
          (\<not> truthy c \<or> (\<forall>x \<in> set (py_str c). isspace x))
       \<and> get_object_or_404
            (save_update_fields st
               (a\<lparr>ap_kine_comment := Some (strip (py_str c)), ap_status := py ''completed'',
                  ap_comment_updated_at := Some now\<rparr>)
               [F_kine_comment, F_status, F_comment_updated_at]) aid =
          Some (a\<lparr>ap_kine_comment := Some (strip (py_str c)), ap_status := py ''completed'',
                  ap_comment_updated_at := Some now\<rparr>, k)"
proof -
  have 1: "comment_patch st request_user now aid c = (HTTP_400_BAD_REQUEST, st)"
    if "c = PNone \<or> (\<exists>s. c = PStr s \<and> (\<forall>x \<in> set s. isspace x))"
  proof -
    from that have "\<not> truthy c \<or> strip (py_str c) = []"
      by (auto simp: strip_empty_iff)
    then show ?thesis by (rule comment_patch_blank [OF g p])
  qed
  have 2: "comment_patch st request_user now aid c =
              (HTTP_200_OK,
               save_update_fields st
                 (a\<lparr>ap_kine_comment := Some (strip (py_str c)), ap_status := py ''completed'',
                    ap_comment_updated_at := Some now\<rparr>)
                 [F_kine_comment, F_status, F_comment_updated_at])"
    if "\<exists>s. c = PStr s \<and> (\<exists>x \<in> set s. \<not> isspace x)"
  proof -
    from that obtain s where c: "c = PStr s" and x: "\<exists>x \<in> set s. \<not> isspace x"
      by blast
    from x have "strip s \<noteq> []" by (simp add: strip_empty_iff)
    moreover from x have "s \<noteq> []" by auto
    ultimately show ?thesis
      using c by (simp add: comment_patch_ok [OF g p])
  qed
  have 3: "comment_patch st request_user now aid c = (HTTP_400_BAD_REQUEST, st) \<or>
          comment_patch st request_user now aid c =
              (HTTP_200_OK,
               save_update_fields st
                 (a\<lparr>ap_kine_comment := Some (strip (py_str c)), ap_status := py ''completed'',
                    ap_comment_updated_at := Some now\<rparr>)
                 [F_kine_comment, F_status, F_comment_updated_at])"
    using comment_patch_blank [OF g p, of c now] comment_patch_ok [OF g p, of c now] by blast
  have 4: "(fst (comment_patch st request_user now aid c) = HTTP_400_BAD_REQUEST) =
          (\<not> truthy c \<or> (\<forall>x \<in> set (py_str c). isspace x))"
    using g p by (simp add: comment_patch_def strip_empty_iff)
  from 1 2 3 4 stored_after_comment [OF g] show ?thesis by blast
qed

theorem comment_submission_atomic_witness:
  "comment_patch booked_store provider 5 7 PNone = (HTTP_400_BAD_REQUEST, booked_store)
   \<and> comment_patch booked_store provider 5 7 (PStr (py ''  '')) =
       (HTTP_400_BAD_REQUEST, booked_store)
   \<and> comment_patch booked_store provider 5 7 (PStr (py '' ok '')) =
       (HTTP_200_OK,
        example_store\<lparr>appointments :=
          [confirmed_appointment\<lparr>ap_kine_comment := Some (py ''ok''),
             ap_status := py ''completed'', ap_comment_updated_at := Some 5\<rparr>]\<rparr>)"
proof -
  note th = comment_submission_atomic [OF get_booked provider_is_assigned, where now = 5]
  from th [of PNone]
  have 1: "comment_patch booked_store provider 5 7 PNone = (HTTP_400_BAD_REQUEST, booked_store)"
    by blast
  have "\<forall>x \<in> set (py ''  ''). isspace x"
    by (simp add: py_def isspace_def)
  with th [of "PStr (py ''  '')"]
  have 2: "comment_patch booked_store provider 5 7 (PStr (py ''  '')) =
             (HTTP_400_BAD_REQUEST, booked_store)"
    by blast
  have "\<exists>x \<in> set (py '' ok ''). \<not> isspace x"
    by (simp add: py_def isspace_def)
  with th [of "PStr (py '' ok '')"]
  have "comment_patch booked_store provider 5 7 (PStr (py '' ok '')) =
          (HTTP_200_OK,
           save_update_fields booked_store
             (confirmed_appointment\<lparr>ap_kine_comment := Some (strip (py_str (PStr (py '' ok '')))),
                ap_status := py ''completed'', ap_comment_updated_at := Some 5\<rparr>)
             [F_kine_comment, F_status, F_comment_updated_at])"
    by blast
  moreover have "save_update_fields booked_store
             (confirmed_appointment\<lparr>ap_kine_comment := Some (strip (py_str (PStr (py '' ok '')))),
                ap_status := py ''completed'', ap_comment_updated_at := Some 5\<rparr>)
             [F_kine_comment, F_status, F_comment_updated_at] =
           example_store\<lparr>appointments :=
             [confirmed_appointment\<lparr>ap_kine_comment := Some (py ''ok''),
                ap_status := py ''completed'', ap_comment_updated_at := Some 5\<rparr>]\<rparr>"
    by (simp add: save_update_fields_def booked_store_def strip_ok confirmed_appointment_def)
  ultimately show ?thesis
    using 1 2 by simp
qed

text \<open>
  Claim C5. For a caller who is not the user of the appointment's kinesiologist, the
  status update and the comment submission both answer 403 and leave the store
  unchanged, whatever the requested status, the comment and the appointment's current
  status are: the caller is checked before the request's content is looked at.
\<close>

theorem authorization_before_validity:
  assumes g: "get_object_or_404 st aid = Some (a, k)" and n: "u_id request_user \<noteq> k_user k"
  shows "status_patch st request_user aid new_status = (HTTP_403_FORBIDDEN, st)
       \<and> comment_patch st request_user now aid comment = (HTTP_403_FORBIDDEN, st)"
  using assms by (simp add: status_patch_def comment_patch_def)

theorem authorization_before_validity_witness:
  "status_patch booked_store stranger 7 (PStr (py ''cancelled'')) =
     (HTTP_403_FORBIDDEN, booked_store)
   \<and> comment_patch booked_store stranger 5 7 (PStr (py '' ok '')) =
       (HTTP_403_FORBIDDEN, booked_store)"
proof -
  have "u_id stranger \<noteq> k_user \<lparr>k_id = 3, k_user = 10\<rparr>"
    by (simp add: stranger_def)
  with get_booked show ?thesis
    by (rule authorization_before_validity)
qed

text \<open>
  Claim C9. A successful status update (by the assigned provider, to \<open>confirmed\<close> or
  \<open>cancelled\<close>) answers 200 and changes nothing but the status of the row with that
  primary key: the other tables and rows are as before, and the stored appointment has
  the new status and its old primary key, kinesiologist, patient, date, start time, end
  time, comment and comment timestamp.
\<close>

theorem status_update_frame:
  assumes g: "get_object_or_404 st aid = Some (a, k)" and p: "u_id request_user = k_user k"
    and s: "s = py ''confirmed'' \<or> s = py ''cancelled''"
  shows "status_patch st request_user aid (PStr s) =
           (HTTP_200_OK,
            st\<lparr>appointments :=
                 map (\<lambda>row. if ap_id row = aid then row\<lparr>ap_status := s\<rparr> else row)
                   (appointments st)\<rparr>)
       \<and> (\<exists>a'. get_object_or_404 (snd (status_patch st request_user aid (PStr s))) aid =
                  Some (a', k) \<and>
              ap_status a' = s \<and>
              ap_id a' = ap_id a \<and>
              ap_kinesiologist_id a' = ap_kinesiologist_id a \<and>
              ap_patient_id a' = ap_patient_id a \<and>
              ap_date a' = ap_date a \<and>
              ap_start_time a' = ap_start_time a \<and>
              ap_end_time a' = ap_end_time a \<and>
              ap_kine_comment a' = ap_kine_comment a \<and>
              ap_comment_updated_at a' = ap_comment_updated_at a)"
proof -
  have "save_update_fields st (a\<lparr>ap_status := s\<rparr>) [F_status] =
          st\<lparr>appointments :=
               map (\<lambda>row. if ap_id row = aid then row\<lparr>ap_status := s\<rparr> else row)
                 (appointments st)\<rparr>"
    using get_object_or_404_id [OF g] by (simp add: save_update_fields_def)
  with status_patch_ok [OF g p s] stored_after_status [OF g, of s] show ?thesis
    by simp
qed

theorem status_update_frame_witness:
  "status_patch booked_store provider 7 (PStr (py ''cancelled'')) = (HTTP_200_OK, cancelled_store)"
proof -
  have "py ''cancelled'' = py ''confirmed'' \<or> py ''cancelled'' = py ''cancelled''"
    by simp
  from status_update_frame [OF get_booked provider_is_assigned this]
  have "status_patch booked_store provider 7 (PStr (py ''cancelled'')) =
          (HTTP_200_OK,
           booked_store\<lparr>appointments :=
             map (\<lambda>row. if ap_id row = 7 then row\<lparr>ap_status := py ''cancelled''\<rparr> else row)
               (appointments booked_store)\<rparr>)"
    by blast
  then show ?thesis
    by (simp add: booked_store_def cancelled_store_def cancelled_appointment_def
        confirmed_appointment_def)
qed

text \<open>
  Claim C10. After a successful comment submission the stored comment is \<open>str()\<close> of the
  submitted value with the whitespace at both ends removed; it is not empty, not
  whitespace only, and neither begins nor ends with whitespace.
\<close>

theorem stored_comment_stripped:
  assumes r: "fst (comment_patch st request_user now aid c) = HTTP_200_OK"
  shows "\<exists>a' k. get_object_or_404 (snd (comment_patch st request_user now aid c)) aid =
                  Some (a', k) \<and>
           ap_kine_comment a' = Some (strip (py_str c)) \<and>
           strip (py_str c) \<noteq> [] \<and>
           (\<exists>x \<in> set (strip (py_str c)). \<not> isspace x) \<and>
           \<not> isspace (hd (strip (py_str c))) \<and>
           \<not> isspace (last (strip (py_str c)))"
proof -
  from r obtain a k where g: "get_object_or_404 st aid = Some (a, k)"
    by (auto simp: comment_patch_def split: option.splits)
  from r g have p: "u_id request_user = k_user k"
    and t: "truthy c" and n: "strip (py_str c) \<noteq> []"
    by (auto simp: comment_patch_def split: if_splits)
  from n have x: "\<exists>x \<in> set (strip (py_str c)). \<not> isspace x"
    using strip_hd [OF n] hd_in_set [OF n] by blast
  from comment_patch_ok [OF g p t n, of now] stored_after_comment [OF g, where t = "strip (py_str c)" and now = now]
  have "get_object_or_404 (snd (comment_patch st request_user now aid c)) aid =
          Some (a\<lparr>ap_kine_comment := Some (strip (py_str c)), ap_status := py ''completed'',
                  ap_comment_updated_at := Some now\<rparr>, k)"
    by simp
  with n x strip_hd [OF n] strip_last [OF n] show ?thesis
    by simp
qed

theorem stored_comment_stripped_witness:
  "fst (comment_patch booked_store provider 5 7 (PStr (py '' ok ''))) = HTTP_200_OK
   \<and> (\<exists>a' k. get_object_or_404
                (snd (comment_patch booked_store provider 5 7 (PStr (py '' ok '')))) 7 =
                Some (a', k) \<and>
              ap_kine_comment a' = Some (py ''ok''))
   \<and> py ''ok'' \<noteq> py '' ok ''"
proof -
  have t: "truthy (PStr (py '' ok ''))" "strip (py_str (PStr (py '' ok ''))) \<noteq> []"
    by (simp_all add: strip_ok) (simp_all add: py_def)
  have r: "fst (comment_patch booked_store provider 5 7 (PStr (py '' ok ''))) = HTTP_200_OK"
    using comment_patch_ok [OF get_booked provider_is_assigned t, of 5] by simp
  from stored_comment_stripped [OF r] have "\<exists>a' k. get_object_or_404
                (snd (comment_patch booked_store provider 5 7 (PStr (py '' ok '')))) 7 =
                Some (a', k) \<and>
              ap_kine_comment a' = Some (py ''ok'')"
    unfolding py_str.simps strip_ok by blast
  moreover have "py ''ok'' \<noteq> py '' ok ''"
    by (simp add: py_def)
  ultimately show ?thesis
    using r by simp
qed

section \<open>Creating an appointment\<close>

text \<open>
  Claim C8. For a request that the serializer accepts, to an existing kinesiologist, a
  caller who is not a superuser, not the user of the patient named in the request and not
  the user of the kinesiologist is answered 403, and the store is unchanged: no
  appointment is created.
\<close>

theorem createAppointment_forbidden:
  assumes "find (\<lambda>k. k_id k = kinesiologist_id) (kinesiologists st) = Some kinesiologist"
    and "is_valid serializer st kinesiologist request_data = Some validated_data"
    and "\<not> is_superuser request_user"
    and "u_id request_user \<noteq> p_user (patient_name serializer validated_data)"
    and "u_id request_user \<noteq> k_user kinesiologist"
  shows "create_post serializer st request_user kinesiologist_id request_data =
           (HTTP_403_FORBIDDEN, st)"
  using assms by (simp add: create_post_def)

theorem createAppointment_forbidden_witness:
  "create_post example_serializer example_store stranger 3 2 =
     (HTTP_403_FORBIDDEN, example_store)"
proof -
  have "find (\<lambda>k. k_id k = 3) (kinesiologists example_store) = Some \<lparr>k_id = 3, k_user = 10\<rparr>"
    by (simp add: example_store_def)
  moreover have "is_valid example_serializer example_store \<lparr>k_id = 3, k_user = 10\<rparr> 2 = Some 2"
    by (simp add: example_serializer_def)
  moreover have "\<not> is_superuser stranger"
    by (simp add: stranger_def)
  moreover have "u_id stranger \<noteq> p_user (patient_name example_serializer 2)"
    by (simp add: stranger_def example_serializer_def)
  moreover have "u_id stranger \<noteq> k_user \<lparr>k_id = 3, k_user = 10\<rparr>"
    by (simp add: stranger_def)
  ultimately show ?thesis
    by (rule createAppointment_forbidden)
qed

end
